theory Spec2Isabelle
  imports Main
begin

section \<open>JavaScript values, errors and promises\<close>

text \<open>
  The two services are Node.js scripts on top of Express (HTTP) and Mongoose (MongoDB).
  What a handler hands to \<^verbatim>\<open>res.json\<close> is a JavaScript value; \<open>jsval\<close> is that value
  before it is serialised. Documents of a collection are schema-less
  (\<^verbatim>\<open>new mongoose.Schema({}, { strict: false })\<close>), so a document is any \<open>jsval\<close>.
  What Mongoose throws or rejects with is an \<^verbatim>\<open>Error\<close> object, which has a
  \<^verbatim>\<open>name\<close> and a \<^verbatim>\<open>message\<close>, both strings.
\<close>

record js_error =
  name :: string
  message :: string

datatype jsval =
    JNull
  | JBool bool
  | JNum int
  | JStr string
  | JArr "jsval list"
  | JObj "(string \<times> jsval) list"
  | JErr js_error

type_synonym doc = jsval

text \<open>A settled promise: \<^verbatim>\<open>await\<close> of it either yields the value or throws.\<close>

datatype 'a promise = Resolved 'a | Rejected js_error

text \<open>
  Statements run in a state and complete normally with a value, leave the enclosing
  function through \<^verbatim>\<open>return\<close>, or throw; the state reached so far is kept in each
  case. \<open>js_bind\<close> is sequencing (what follows a \<^verbatim>\<open>return\<close> or a throw is skipped),
  \<^verbatim>\<open>try { m } catch (err) { h }\<close> is \<open>try_catch m h\<close>, \<^verbatim>\<open>if (c) { m }\<close> is
  \<open>js_when c m\<close>, \<^verbatim>\<open>return m;\<close> is \<open>js_return m\<close> (the value returned by a handler is
  ignored by Express, so it is not kept), and \<open>js_function\<close> is the boundary of a
  function body, where a \<^verbatim>\<open>return\<close> ends.
\<close>

datatype 'a result = Value 'a | Returned | Thrown js_error

type_synonym ('s, 'a) js = "'s \<Rightarrow> 'a result \<times> 's"

definition js_pure :: "'a \<Rightarrow> ('s, 'a) js" where
  "js_pure v = (\<lambda>s. (Value v, s))"

definition js_throw :: "js_error \<Rightarrow> ('s, 'a) js" where
  "js_throw e = (\<lambda>s. (Thrown e, s))"

definition js_bind :: "('s, 'a) js \<Rightarrow> ('a \<Rightarrow> ('s, 'b) js) \<Rightarrow> ('s, 'b) js" where
  "js_bind m f = (\<lambda>s. case m s of
       (Value v, s') \<Rightarrow> f v s'
     | (Returned, s') \<Rightarrow> (Returned, s')
     | (Thrown e, s') \<Rightarrow> (Thrown e, s'))"

definition js_seq :: "('s, 'a) js \<Rightarrow> ('s, 'b) js \<Rightarrow> ('s, 'b) js" where
  "js_seq m n = js_bind m (\<lambda>_. n)"

definition js_when :: "bool \<Rightarrow> ('s, unit) js \<Rightarrow> ('s, unit) js" where
  "js_when c m = (if c then m else js_pure ())"

definition js_return :: "('s, 'a) js \<Rightarrow> ('s, 'b) js" where
  "js_return m = (\<lambda>s. case m s of
       (Value v, s') \<Rightarrow> (Returned, s')
     | (Returned, s') \<Rightarrow> (Returned, s')
     | (Thrown e, s') \<Rightarrow> (Thrown e, s'))"

definition try_catch :: "('s, 'a) js \<Rightarrow> (js_error \<Rightarrow> ('s, 'a) js) \<Rightarrow> ('s, 'a) js" where
  "try_catch m h = (\<lambda>s. case m s of
       (Value v, s') \<Rightarrow> (Value v, s')
     | (Returned, s') \<Rightarrow> (Returned, s')
     | (Thrown e, s') \<Rightarrow> h e s')"

definition js_function :: "('s, unit) js \<Rightarrow> ('s, unit) js" where
  "js_function m = (\<lambda>s. case m s of
       (Value v, s') \<Rightarrow> (Value (), s')
     | (Returned, s') \<Rightarrow> (Value (), s')
     | (Thrown e, s') \<Rightarrow> (Thrown e, s'))"

definition await :: "'a promise \<Rightarrow> ('s, 'a) js" where
  "await p = (case p of Resolved v \<Rightarrow> js_pure v | Rejected e \<Rightarrow> js_throw e)"

text \<open>
  \<^verbatim>\<open>p.then(f)\<close> and \<^verbatim>\<open>p.catch(g)\<close> on a settled promise: the callback runs on the
  matching settlement, and the new promise is rejected only when the callback throws
  or when a rejection is passed through.
\<close>

definition promise_then :: "'a promise \<Rightarrow> ('a \<Rightarrow> ('s, unit) js) \<Rightarrow> ('s, unit promise) js" where
  "promise_then p f = (\<lambda>s. case p of
       Resolved v \<Rightarrow> (case f v s of
           (Thrown e, s') \<Rightarrow> (Value (Rejected e), s')
         | (_, s') \<Rightarrow> (Value (Resolved ()), s'))
     | Rejected e \<Rightarrow> (Value (Rejected e), s))"

definition promise_catch :: "unit promise \<Rightarrow> (js_error \<Rightarrow> ('s, unit) js) \<Rightarrow> ('s, unit promise) js" where
  "promise_catch p g = (\<lambda>s. case p of
       Resolved v \<Rightarrow> (Value (Resolved v), s)
     | Rejected e \<Rightarrow> (case g e s of
           (Thrown e', s') \<Rightarrow> (Value (Rejected e'), s')
         | (_, s') \<Rightarrow> (Value (Resolved ()), s')))"

section \<open>The process, the console and the response object\<close>

text \<open>
  \<open>console\<close> holds the lines written by \<^verbatim>\<open>console.log\<close> and \<^verbatim>\<open>console.error\<close>
  (the text, and the error object printed after it when there is one), \<open>connects\<close> the
  addresses \<^verbatim>\<open>mongoose.connect\<close> was called with, \<open>connection\<close> the state of the one
  connection, \<open>listening\<close> the port \<^verbatim>\<open>app.listen\<close> bound, \<open>finds\<close> the collections
  read by \<^verbatim>\<open>Model.find()\<close>, in order.
\<close>

datatype console_line =
    ConsoleLog string "js_error option"
  | ConsoleError string "js_error option"

datatype connection = Connecting | Connected | Failed js_error

record process =
  console :: "console_line list"
  connects :: "string list"
  connection :: "connection option"
  listening :: "nat option"
  exited :: bool
  finds :: "string list"

text \<open>
  Express's \<^verbatim>\<open>res\<close>: \<^verbatim>\<open>res.status(c)\<close> sets the status code (200 until set),
  \<^verbatim>\<open>res.setHeader\<close> adds a header, \<^verbatim>\<open>res.json(v)\<close> sends \<open>v\<close> with the status code
  and headers set so far. \<open>sent\<close> lists every response written for the request, so
  that a handler answering twice, or not at all, is visible.
\<close>

record response =
  status :: nat
  hdrs :: "(string \<times> string) list"
  body :: jsval

record res =
  statusCode :: nat
  headers :: "(string \<times> string) list"
  sent :: "response list"

record state = process +
  res :: res

record request =
  httpMethod :: string
  url :: string

definition new_res :: res where
  "new_res = \<lparr>statusCode = 200, headers = [], sent = []\<rparr>"

definition console_log :: "string \<Rightarrow> js_error option \<Rightarrow> ('z process_scheme, unit) js" where
  "console_log t e = (\<lambda>s. (Value (), s\<lparr>console := console s @ [ConsoleLog t e]\<rparr>))"

definition console_error :: "string \<Rightarrow> js_error option \<Rightarrow> ('z process_scheme, unit) js" where
  "console_error t e = (\<lambda>s. (Value (), s\<lparr>console := console s @ [ConsoleError t e]\<rparr>))"

definition res_status :: "nat \<Rightarrow> (state, unit) js" where
  "res_status c = (\<lambda>s. (Value (), s\<lparr>res := (res s)\<lparr>statusCode := c\<rparr>\<rparr>))"

definition res_setHeader :: "string \<Rightarrow> string \<Rightarrow> (state, unit) js" where
  "res_setHeader k v = (\<lambda>s. (Value (), s\<lparr>res := (res s)\<lparr>headers := headers (res s) @ [(k, v)]\<rparr>\<rparr>))"

definition res_json :: "jsval \<Rightarrow> (state, unit) js" where
  "res_json v = (\<lambda>s. (Value (),
     s\<lparr>res := (res s)\<lparr>sent := sent (res s) @
       [\<lparr>status = statusCode (res s), hdrs = headers (res s), body = v\<rparr>]\<rparr>\<rparr>))"

section \<open>Collections and the unfiltered read\<close>

text \<open>
  \<^verbatim>\<open>mongoose.model(name, schema, collection)\<close> binds a model to a collection.
  \<open>db\<close> gives, for a collection name, how the unfiltered read of that collection
  settles for the request at hand: with the documents, in the order the store returns
  them, or with an error. \<^verbatim>\<open>Model.find()\<close> starts the read and returns its promise.
\<close>

record model =
  modelName :: string
  collectionName :: string

type_synonym db = "string \<Rightarrow> doc list promise"

definition find :: "db \<Rightarrow> model \<Rightarrow> ('z process_scheme, doc list promise) js" where
  "find d m = (\<lambda>s. (Value (d (collectionName m)), s\<lparr>finds := finds s @ [collectionName m]\<rparr>))"

section \<open>Express routing\<close>

text \<open>
  An application is the list of its layers in registration order. \<^verbatim>\<open>app.use(mw)\<close>
  adds a middleware, which sees every request and is given the rest of the stack as
  \<^verbatim>\<open>next\<close>; \<^verbatim>\<open>app.get(path, h)\<close> adds a handler for GET requests to that path, and a
  handler that does not call \<^verbatim>\<open>next\<close> ends the dispatch. A request no layer answers
  falls through to Express's own default handler, which is left out here.
\<close>

datatype layer =
    Use "request \<Rightarrow> (state, unit) js \<Rightarrow> (state, unit) js"
  | Get string "db \<Rightarrow> request \<Rightarrow> (state, unit) js"

fun dispatch :: "layer list \<Rightarrow> db \<Rightarrow> request \<Rightarrow> (state, unit) js" where
  "dispatch [] d req = js_pure ()"
| "dispatch (Use mw # ls) d req = mw req (dispatch ls d req)"
| "dispatch (Get p h # ls) d req =
     (if httpMethod req = ''GET'' \<and> url req = p then h d req else dispatch ls d req)"

definition GET :: "string \<Rightarrow> request" where
  "GET p = \<lparr>httpMethod = ''GET'', url = p\<rparr>"

text \<open>
  One request served by a process: a fresh \<^verbatim>\<open>res\<close>, the dispatch through the
  application, and what comes out: whether the handler completed or threw, and the
  responses it wrote.
\<close>

definition handle :: "layer list \<Rightarrow> db \<Rightarrow> request \<Rightarrow> process \<Rightarrow> unit result \<times> state" where
  "handle app d req p = dispatch app d req (process.extend p (state.fields new_res))"

definition replies :: "unit result \<times> state \<Rightarrow> response list" where
  "replies x = sent (res (snd x))"

section \<open>Service A: master data\<close>

definition MasterData :: model where
  "MasterData = \<lparr>modelName = ''MasterData'', collectionName = ''master''\<rparr>"

definition fetch_master_data :: "db \<Rightarrow> request \<Rightarrow> (state, unit) js" where
  "fetch_master_data d req = js_function
     (try_catch
       (js_bind (find d MasterData) (\<lambda>q.
        js_bind (await q) (\<lambda>masterData.
        js_seq (js_when (length masterData = 0)
                  (js_return (js_seq (res_status 404)
                     (res_json (JObj [(''message'', JStr ''No Master Data Found'')])))))
               (res_json (JArr masterData)))))
       (\<lambda>err. js_seq (res_status 500)
                 (res_json (JObj [(''message'', JStr ''Error fetching Master Data''),
                                  (''error'', JErr err)]))))"

definition serviceA :: "layer list" where
  "serviceA = [Get ''/fetch-master-data'' fetch_master_data]"

section \<open>Service B: HCP and referral data\<close>

text \<open>
  Modelled from the spec: the \<^verbatim>\<open>cors\<close> package that \<^verbatim>\<open>app.use(cors())\<close> calls is
  not part of the repository. The spec says of service B that it has ``permissive
  cross-origin access enabled for all routes'' and that a ``response includes
  permissive CORS headers'': the middleware adds the header that admits every origin
  and passes the request on to the next layer.
\<close>

definition cors :: "request \<Rightarrow> (state, unit) js \<Rightarrow> (state, unit) js" where
  "cors req next = js_seq (res_setHeader ''Access-Control-Allow-Origin'' ''*'') next"

definition ReferalData :: model where
  "ReferalData = \<lparr>modelName = ''ReferalData'', collectionName = ''referal''\<rparr>"

definition HcpData :: model where
  "HcpData = \<lparr>modelName = ''HcpData'', collectionName = ''hcp''\<rparr>"

definition fetch_data :: "db \<Rightarrow> request \<Rightarrow> (state, unit) js" where
  "fetch_data d req = js_function
     (js_seq (console_log ''Received request to /fetch-data'' None)
     (try_catch
       (js_bind (find d HcpData) (\<lambda>q.
        js_bind (await q) (\<lambda>data.
        res_json (JArr data))))
       (\<lambda>err. js_seq (console_error ''Error fetching HCP data:'' (Some err))
               (js_seq (res_status 500)
                 (res_json (JObj [(''message'', JStr ''Error fetching HCP data''),
                                  (''error'', JStr (message err))]))))))"

definition fetch_referal_data :: "db \<Rightarrow> request \<Rightarrow> (state, unit) js" where
  "fetch_referal_data d req = js_function
     (js_seq (console_log ''Received request to /fetch-referal-data'' None)
     (try_catch
       (js_bind (find d ReferalData) (\<lambda>q.
        js_bind (await q) (\<lambda>refer_data.
        res_json (JArr refer_data))))
       (\<lambda>err. js_seq (console_error ''Error fetching Master Data:'' (Some err))
               (js_seq (res_status 500)
                 (res_json (JObj [(''message'', JStr ''Error fetching Master Data''),
                                  (''error'', JStr (message err))]))))))"

definition test :: "db \<Rightarrow> request \<Rightarrow> (state, unit) js" where
  "test d req = js_function (res_json (JObj [(''message'', JStr ''API is working!'')]))"

definition serviceB :: "layer list" where
  "serviceB =
     [Use cors,
      Get ''/fetch-data'' fetch_data,
      Get ''/fetch-referal-data'' fetch_referal_data,
      Get ''/test'' test]"

section \<open>Start-up and the life of a process\<close>

text \<open>
  Both scripts start the same way: one call of \<^verbatim>\<open>mongoose.connect\<close>, whose promise
  gets a \<^verbatim>\<open>.then\<close> and a \<^verbatim>\<open>.catch\<close> callback, the route registrations, and
  \<^verbatim>\<open>app.listen\<close>, whose callback writes the start-up lines once the port is bound.
\<close>

definition mongoose_connect :: "string \<Rightarrow> ('z process_scheme, unit) js" where
  "mongoose_connect uri =
     (\<lambda>s. (Value (), s\<lparr>connects := connects s @ [uri], connection := Some Connecting\<rparr>))"

definition app_listen :: "nat \<Rightarrow> ('z process_scheme, unit) js \<Rightarrow> ('z process_scheme, unit) js" where
  "app_listen p cb = js_seq (\<lambda>s. (Value (), s\<lparr>listening := Some p\<rparr>)) cb"

definition connect_settled :: "unit promise \<Rightarrow> ('z process_scheme, unit promise) js" where
  "connect_settled q =
     js_bind (promise_then q (\<lambda>_. console_log ''Connected to MongoDB'' None)) (\<lambda>q'.
     promise_catch q' (\<lambda>err. console_log ''Error connecting to MongoDB: '' (Some err)))"

datatype service = ServiceA | ServiceB

fun PORT :: "service \<Rightarrow> nat" where
  "PORT ServiceA = 5001"
| "PORT ServiceB = 5000"

fun app :: "service \<Rightarrow> layer list" where
  "app ServiceA = serviceA"
| "app ServiceB = serviceB"

fun main :: "service \<Rightarrow> (process, unit) js" where
  "main ServiceA =
     js_seq (mongoose_connect ''mongodb://localhost:27017/zolgensma'')
       (app_listen (PORT ServiceA)
          (console_log ''Server running on http://localhost:5001'' None))"
| "main ServiceB =
     js_seq (mongoose_connect ''mongodb://localhost:27017/zolgensma'')
       (app_listen (PORT ServiceB)
          (js_seq (console_log ''Server running on http://localhost:5000'' None)
                  (console_log ''CORS is enabled for all origins'' None)))"

definition boot :: process where
  "boot = \<lparr>console = [], connects = [], connection = None, listening = None,
           exited = False, finds = []\<rparr>"

text \<open>
  Node ends a process on an exception that leaves the script, and on a rejected
  promise nobody handles; \<open>exited\<close> records that.
\<close>

definition start :: "service \<Rightarrow> process" where
  "start svc = (case main svc boot of
       (Thrown e, p) \<Rightarrow> p\<lparr>exited := True\<rparr>
     | (_, p) \<Rightarrow> p)"

text \<open>
  Modelled from the spec: the Mongoose driver is not part of the repository. The spec
  says that ``subsequent requests against a failed connection will surface as
  QueryFailure per request'': once the connection attempt has failed, every read is
  rejected, here with the error of the attempt; otherwise a read settles as the store
  decides.
\<close>

definition driver :: "connection option \<Rightarrow> db \<Rightarrow> db" where
  "driver c d = (case c of Some (Failed e) \<Rightarrow> (\<lambda>_. Rejected e) | _ \<Rightarrow> d)"

text \<open>
  After the script, the process reacts to events: the connection attempt settles
  (once: a later settlement is ignored), or a request comes in, with the store's
  answers to the reads it may start. When the attempt settles, the driver records the
  state of the connection and the callbacks of the script run; a request is served
  only by a process that is alive and listening. A step gives the next process state
  and the responses written.
\<close>

datatype event = ConnectSettled "unit promise" | Incoming request db

fun step :: "service \<Rightarrow> event \<Rightarrow> process \<Rightarrow> process \<times> response list" where
  "step svc (ConnectSettled q) p =
     (if exited p \<or> connection p \<noteq> Some Connecting then (p, [])
      else case connect_settled q
                  (p\<lparr>connection := Some (case q of Resolved _ \<Rightarrow> Connected
                                                | Rejected e \<Rightarrow> Failed e)\<rparr>) of
             (Value (Rejected e), p') \<Rightarrow> (p'\<lparr>exited := True\<rparr>, [])
           | (_, p') \<Rightarrow> (p', []))"
| "step svc (Incoming req d) p =
     (if exited p \<or> listening p = None then (p, [])
      else case handle (app svc) (driver (connection p) d) req p of
             (Thrown e, s) \<Rightarrow> ((process.truncate s)\<lparr>exited := True\<rparr>, sent (res s))
           | (_, s) \<Rightarrow> (process.truncate s, sent (res s)))"

fun run :: "service \<Rightarrow> event list \<Rightarrow> process \<Rightarrow> process \<times> response list list" where
  "run svc [] p = (p, [])"
| "run svc (ev # evs) p =
     (case step svc ev p of (p', rs) \<Rightarrow>
        (case run svc evs p' of (p'', rss) \<Rightarrow> (p'', rs # rss)))"

section \<open>Reading a response\<close>

definition answers :: "unit result \<times> state \<Rightarrow> (nat \<times> jsval) list" where
  "answers x = map (\<lambda>r. (status r, body r)) (replies x)"

definition field :: "string \<Rightarrow> jsval \<Rightarrow> jsval option" where
  "field k v = (case v of JObj kvs \<Rightarrow> map_of kvs k | _ \<Rightarrow> None)"

text \<open>The paths of the routes of each service that read a collection.\<close>

fun data_paths :: "service \<Rightarrow> string set" where
  "data_paths ServiceA = {''/fetch-master-data''}"
| "data_paths ServiceB = {''/fetch-data'', ''/fetch-referal-data''}"

section \<open>Unfolding the model\<close>

lemmas js_defs = js_pure_def js_throw_def js_bind_def js_seq_def js_when_def js_return_def
  try_catch_def js_function_def await_def promise_then_def promise_catch_def
  console_log_def console_error_def res_status_def res_setHeader_def res_json_def find_def
  handle_def replies_def answers_def new_res_def GET_def process.defs state.defs

lemmas route_defs = serviceA_def serviceB_def fetch_master_data_def fetch_data_def
  fetch_referal_data_def test_def cors_def MasterData_def HcpData_def ReferalData_def

lemmas boot_defs = start_def boot_def mongoose_connect_def app_listen_def connect_settled_def
  driver_def

section \<open>The master-data route\<close>

text \<open>
  C1. A GET request to \<^verbatim>\<open>/fetch-master-data\<close> on service A whose read of the
  \<^verbatim>\<open>master\<close> collection succeeds with zero documents is answered with status 404 and
  the body \<^verbatim>\<open>{ message: "No Master Data Found" }\<close>, and the handler completes.
\<close>

theorem master_empty_404:
  assumes "d ''master'' = Resolved []"
  shows "fst (handle serviceA d (GET ''/fetch-master-data'') p) = Value () \<and>
         answers (handle serviceA d (GET ''/fetch-master-data'') p) =
           [(404, JObj [(''message'', JStr ''No Master Data Found'')])]"
  using assms by (simp add: js_defs route_defs)

theorem master_empty_404_witness:
  "answers (handle serviceA (\<lambda>_. Resolved []) (GET ''/fetch-master-data'') boot) =
     [(404, JObj [(''message'', JStr ''No Master Data Found'')])]"
  using master_empty_404 [of "\<lambda>_. Resolved []" boot] by simp

text \<open>
  C2. A GET request to \<^verbatim>\<open>/fetch-master-data\<close> on service A whose read succeeds with
  at least one document is answered with status 200 and the array of exactly those
  documents, in the order the store returned them.
\<close>

theorem master_docs_200:
  assumes "d ''master'' = Resolved docs" and "0 < length docs"
  shows "fst (handle serviceA d (GET ''/fetch-master-data'') p) = Value () \<and>
         answers (handle serviceA d (GET ''/fetch-master-data'') p) = [(200, JArr docs)]"
  using assms by (simp add: js_defs route_defs)

theorem master_docs_200_witness:
  "answers (handle serviceA (\<lambda>_. Resolved [JObj [(''a'', JNum 1)], JObj [(''a'', JNum 2)]])
      (GET ''/fetch-master-data'') boot) =
     [(200, JArr [JObj [(''a'', JNum 1)], JObj [(''a'', JNum 2)]])]"
  using master_docs_200
    [of "\<lambda>_. Resolved [JObj [(''a'', JNum 1)], JObj [(''a'', JNum 2)]]" _ boot]
  by simp

text \<open>
  C10. Every GET request to \<^verbatim>\<open>/fetch-master-data\<close> gets exactly one response, and
  its status is 404, 200 or 500 according to how the read settled: the empty-collection
  branch returns after its 404, so no request gets a 404 and a 200.
\<close>

theorem master_one_response:
  "length (replies (handle serviceA d (GET ''/fetch-master-data'') p)) = 1 \<and>
   map status (replies (handle serviceA d (GET ''/fetch-master-data'') p)) =
     [case d ''master'' of
        Resolved docs \<Rightarrow> if docs = [] then 404 else 200
      | Rejected e \<Rightarrow> 500]"
  by (cases "d ''master''") (simp_all add: js_defs route_defs)

section \<open>The routes of service B\<close>

text \<open>
  C3. A GET request to \<^verbatim>\<open>/fetch-data\<close> or \<^verbatim>\<open>/fetch-referal-data\<close> on service B
  whose read succeeds is answered with status 200 and the array of all documents of the
  bound collection (\<^verbatim>\<open>hcp\<close>, \<^verbatim>\<open>referal\<close>), also when there are none; and however
  the read settles, these routes never answer 404.
\<close>

theorem hcp_referal_200:
  "(d ''hcp'' = Resolved docs \<longrightarrow>
      fst (handle serviceB d (GET ''/fetch-data'') p) = Value () \<and>
      answers (handle serviceB d (GET ''/fetch-data'') p) = [(200, JArr docs)]) \<and>
   (d ''referal'' = Resolved docs \<longrightarrow>
      fst (handle serviceB d (GET ''/fetch-referal-data'') p) = Value () \<and>
      answers (handle serviceB d (GET ''/fetch-referal-data'') p) = [(200, JArr docs)]) \<and>
   404 \<notin> fst ` set (answers (handle serviceB d (GET ''/fetch-data'') p)) \<and>
   404 \<notin> fst ` set (answers (handle serviceB d (GET ''/fetch-referal-data'') p))"
  by (cases "d ''hcp''"; cases "d ''referal''") (simp_all add: js_defs route_defs)

theorem hcp_referal_200_witness:
  "answers (handle serviceB (\<lambda>_. Resolved []) (GET ''/fetch-data'') boot) = [(200, JArr [])] \<and>
   answers (handle serviceB (\<lambda>_. Resolved []) (GET ''/fetch-referal-data'') boot) = [(200, JArr [])]"
  using hcp_referal_200 [of "\<lambda>_. Resolved []" "[]" boot] by simp

text \<open>
  C7. A GET request to \<^verbatim>\<open>/test\<close> on service B is answered with status 200 and the
  body \<^verbatim>\<open>{ message: "API is working!" }\<close>, whatever the state of the process and of
  the store, and the handler starts no read.
\<close>

theorem test_route_fixed:
  "fst (handle serviceB d (GET ''/test'') p) = Value () \<and>
   answers (handle serviceB d (GET ''/test'') p) =
     [(200, JObj [(''message'', JStr ''API is working!'')])] \<and>
   finds (snd (handle serviceB d (GET ''/test'') p)) = finds p"
  by (simp add: js_defs route_defs)

text \<open>
  C8. Service B registers the CORS middleware in front of its routes, and every
  response of \<^verbatim>\<open>/fetch-data\<close>, \<^verbatim>\<open>/fetch-referal-data\<close> and \<^verbatim>\<open>/test\<close> carries
  the header that admits every origin, however the reads settle; each of the three
  routes does answer.
\<close>

theorem cors_on_every_route:
  "(\<exists>routes. serviceB = Use cors # routes) \<and>
   replies (handle serviceB d (GET ''/fetch-data'') p) \<noteq> [] \<and>
   replies (handle serviceB d (GET ''/fetch-referal-data'') p) \<noteq> [] \<and>
   replies (handle serviceB d (GET ''/test'') p) \<noteq> [] \<and>
   list_all (\<lambda>r. (''Access-Control-Allow-Origin'', ''*'') \<in> set (hdrs r))
     (replies (handle serviceB d (GET ''/fetch-data'') p) @
      replies (handle serviceB d (GET ''/fetch-referal-data'') p) @
      replies (handle serviceB d (GET ''/test'') p))"
  by (cases "d ''hcp''"; cases "d ''referal''") (simp_all add: js_defs route_defs)

section \<open>Failed reads\<close>

text \<open>
  C4. On each of the three data routes, a read that throws or rejects is caught in the
  handler: the handler completes without throwing, and the one response has status 500
  and an object with a \<^verbatim>\<open>message\<close> and an \<^verbatim>\<open>error\<close> field as body.
\<close>

theorem read_failure_500:
  "(d ''master'' = Rejected e \<longrightarrow>
      fst (handle serviceA d (GET ''/fetch-master-data'') p) = Value () \<and>
      (\<exists>m x. answers (handle serviceA d (GET ''/fetch-master-data'') p) =
         [(500, JObj [(''message'', m), (''error'', x)])])) \<and>
   (d ''hcp'' = Rejected e \<longrightarrow>
      fst (handle serviceB d (GET ''/fetch-data'') p) = Value () \<and>
      (\<exists>m x. answers (handle serviceB d (GET ''/fetch-data'') p) =
         [(500, JObj [(''message'', m), (''error'', x)])])) \<and>
   (d ''referal'' = Rejected e \<longrightarrow>
      fst (handle serviceB d (GET ''/fetch-referal-data'') p) = Value () \<and>
      (\<exists>m x. answers (handle serviceB d (GET ''/fetch-referal-data'') p) =
         [(500, JObj [(''message'', m), (''error'', x)])]))"
  by (simp add: js_defs route_defs)

theorem read_failure_500_witness:
  "fst (handle serviceA (\<lambda>_. Rejected \<lparr>name = ''MongooseError'', message = ''timed out''\<rparr>)
          (GET ''/fetch-master-data'') boot) = Value () \<and>
   map fst (answers (handle serviceA
          (\<lambda>_. Rejected \<lparr>name = ''MongooseError'', message = ''timed out''\<rparr>)
          (GET ''/fetch-master-data'') boot)) = [500] \<and>
   map fst (answers (handle serviceB
          (\<lambda>_. Rejected \<lparr>name = ''MongooseError'', message = ''timed out''\<rparr>)
          (GET ''/fetch-data'') boot)) = [500] \<and>
   map fst (answers (handle serviceB
          (\<lambda>_. Rejected \<lparr>name = ''MongooseError'', message = ''timed out''\<rparr>)
          (GET ''/fetch-referal-data'') boot)) = [500]"
  using read_failure_500
    [of "\<lambda>_. Rejected \<lparr>name = ''MongooseError'', message = ''timed out''\<rparr>"
        "\<lparr>name = ''MongooseError'', message = ''timed out''\<rparr>" boot]
  by auto

text \<open>
  C5. When the read fails, the \<^verbatim>\<open>message\<close> of the referral route is the text of the
  master-data route, \<^verbatim>\<open>Error fetching Master Data\<close>; of the three routes only the
  HCP route has a text of its own.
\<close>

theorem referal_message_is_master_message:
  "map (field ''message'' \<circ> snd)
     (answers (handle serviceB (\<lambda>_. Rejected e) (GET ''/fetch-referal-data'') p)) =
     [Some (JStr ''Error fetching Master Data'')] \<and>
   map (field ''message'' \<circ> snd)
     (answers (handle serviceA (\<lambda>_. Rejected e) (GET ''/fetch-master-data'') p)) =
     [Some (JStr ''Error fetching Master Data'')] \<and>
   map (field ''message'' \<circ> snd)
     (answers (handle serviceB (\<lambda>_. Rejected e) (GET ''/fetch-data'') p)) =
     [Some (JStr ''Error fetching HCP data'')]"
  by (simp add: js_defs route_defs field_def)

text \<open>
  C6. When the read fails with an error \<open>e\<close>, the \<^verbatim>\<open>error\<close> field of service A is
  the error object itself and that of both routes of service B is the text
  \<^verbatim>\<open>e.message\<close>, so the fields of the two services differ.
\<close>

theorem error_field_shapes:
  assumes "d ''master'' = Rejected e" and "d ''hcp'' = Rejected e"
    and "d ''referal'' = Rejected e"
  shows "map (field ''error'' \<circ> snd)
           (answers (handle serviceA d (GET ''/fetch-master-data'') p)) = [Some (JErr e)] \<and>
         map (field ''error'' \<circ> snd)
           (answers (handle serviceB d (GET ''/fetch-data'') p)) = [Some (JStr (message e))] \<and>
         map (field ''error'' \<circ> snd)
           (answers (handle serviceB d (GET ''/fetch-referal-data'') p)) =
           [Some (JStr (message e))] \<and>
         map (field ''error'' \<circ> snd)
           (answers (handle serviceA d (GET ''/fetch-master-data'') p)) \<noteq>
         map (field ''error'' \<circ> snd)
           (answers (handle serviceB d (GET ''/fetch-data'') p)) \<and>
         map (field ''error'' \<circ> snd)
           (answers (handle serviceA d (GET ''/fetch-master-data'') p)) \<noteq>
         map (field ''error'' \<circ> snd)
           (answers (handle serviceB d (GET ''/fetch-referal-data'') p))"
  using assms by (simp add: js_defs route_defs field_def)

theorem error_field_shapes_witness:
  "map (field ''error'' \<circ> snd)
     (answers (handle serviceA
        (\<lambda>_. Rejected \<lparr>name = ''MongooseError'', message = ''timed out''\<rparr>)
        (GET ''/fetch-master-data'') boot)) =
     [Some (JErr \<lparr>name = ''MongooseError'', message = ''timed out''\<rparr>)] \<and>
   map (field ''error'' \<circ> snd)
     (answers (handle serviceB
        (\<lambda>_. Rejected \<lparr>name = ''MongooseError'', message = ''timed out''\<rparr>)
        (GET ''/fetch-data'') boot)) =
     [Some (JStr ''timed out'')]"
  using error_field_shapes
    [of "\<lambda>_. Rejected \<lparr>name = ''MongooseError'', message = ''timed out''\<rparr>"
        "\<lparr>name = ''MongooseError'', message = ''timed out''\<rparr>" boot]
  by simp

section \<open>A failed connection attempt\<close>

text \<open>
  No handler of either application throws, and none touches the connection, the
  list of connection attempts, the listening port or the exit flag of the process.
\<close>

lemma handle_app:
  "\<exists>s. handle (app svc) d req p = (Value (), s) \<and> connection s = connection p \<and>
       connects s = connects p \<and> listening s = listening p \<and> exited s = exited p"
  by (cases svc; cases "d ''master''"; cases "d ''hcp''"; cases "d ''referal''")
     (simp_all add: js_defs route_defs)

lemma step_incoming:
  assumes "step svc (Incoming req d) p = (p', rs)"
  shows "connection p' = connection p \<and> connects p' = connects p \<and>
         listening p' = listening p \<and> exited p' = exited p"
proof (cases "exited p \<or> listening p = None")
  case True
  with assms show ?thesis by auto
next
  case False
  obtain s where s: "handle (app svc) (driver (connection p) d) req p = (Value (), s)"
    "connection s = connection p" "connects s = connects p"
    "listening s = listening p" "exited s = exited p"
    using handle_app [of svc "driver (connection p) d" req p] by blast
  from assms False s show ?thesis by (auto simp: process.defs)
qed

lemma run_incoming:
  assumes "\<forall>ev \<in> set evs. \<exists>req d. ev = Incoming req d" and "run svc evs p = (p', rss)"
  shows "connection p' = connection p \<and> connects p' = connects p \<and>
         listening p' = listening p \<and> exited p' = exited p"
  using assms
proof (induction evs arbitrary: p p' rss)
  case Nil
  then show ?case by simp
next
  case (Cons ev evs)
  then obtain req d where ev: "ev = Incoming req d" by auto
  obtain q rs where q: "step svc (Incoming req d) p = (q, rs)" by (cases "step svc (Incoming req d) p")
  obtain q' rss' where q': "run svc evs q = (q', rss')" by (cases "run svc evs q")
  from Cons.prems(2) ev q q' have "p' = q'" by simp
  moreover from Cons.IH [OF _ q'] Cons.prems(1) have "connection q' = connection q \<and> connects q' = connects q \<and>
         listening q' = listening q \<and> exited q' = exited q" by simp
  ultimately show ?case using step_incoming [OF q] by simp
qed

lemma start_fields:
  "connection (start svc) = Some Connecting \<and>
   connects (start svc) = [''mongodb://localhost:27017/zolgensma''] \<and>
   listening (start svc) = Some (PORT svc) \<and> \<not> exited (start svc)"
  by (cases svc) (simp_all add: boot_defs js_defs)

lemma settle_rejected:
  assumes "connection p = Some Connecting" and "\<not> exited p"
  shows "step svc (ConnectSettled (Rejected e)) p =
    (p\<lparr>console := console p @ [ConsoleLog ''Error connecting to MongoDB: '' (Some e)],
       connection := Some (Failed e)\<rparr>, [])"
  using assms by (simp add: boot_defs js_defs)

lemma failed_request:
  assumes "connection p = Some (Failed e)" and "\<not> exited p" and "listening p = Some n"
    and "path \<in> data_paths svc"
  shows "map status (snd (step svc (Incoming (GET path) d) p)) = [500]"
  using assms by (cases svc) (auto simp add: boot_defs js_defs route_defs)

lemma failed_step:
  assumes "connection p = Some (Failed e)" and "\<not> exited p" and "listening p = Some n"
    and "step svc ev p = (p', rs)"
  shows "connection p' = Some (Failed e) \<and> \<not> exited p' \<and> listening p' = Some n \<and>
         connects p' = connects p"
proof (cases ev)
  case (ConnectSettled q)
  with assms show ?thesis by auto
next
  case (Incoming req d)
  with assms step_incoming [of svc req d p p' rs] show ?thesis by simp
qed

lemma failed_run:
  assumes "connection p = Some (Failed e)" and "\<not> exited p" and "listening p = Some n"
    and "run svc evs p = (p', rss)"
  shows "connection p' = Some (Failed e) \<and> \<not> exited p' \<and> listening p' = Some n \<and>
         connects p' = connects p \<and>
         (\<forall>i<length evs. \<forall>path d. evs ! i = Incoming (GET path) d \<and> path \<in> data_paths svc \<longrightarrow>
            map status (rss ! i) = [500])"
  using assms
proof (induction evs arbitrary: p p' rss)
  case Nil
  then show ?case by simp
next
  case (Cons ev evs)
  obtain q rs where q: "step svc ev p = (q, rs)" by (cases "step svc ev p")
  obtain q' rss' where q': "run svc evs q = (q', rss')" by (cases "run svc evs q")
  from Cons.prems(4) q q' have eq: "p' = q'" "rss = rs # rss'" by simp_all
  have inv: "connection q = Some (Failed e) \<and> \<not> exited q \<and> listening q = Some n \<and>
         connects q = connects p"
    using failed_step [OF Cons.prems(1-3) q] .
  then have ih: "connection q' = Some (Failed e) \<and> \<not> exited q' \<and> listening q' = Some n \<and>
         connects q' = connects q \<and>
         (\<forall>i<length evs. \<forall>path d. evs ! i = Incoming (GET path) d \<and> path \<in> data_paths svc \<longrightarrow>
            map status (rss' ! i) = [500])"
    using Cons.IH [OF _ _ _ q'] by simp
  have "map status ((rs # rss') ! i) = [500]"
    if "i < length (ev # evs)" and "(ev # evs) ! i = Incoming (GET path) d"
      and "path \<in> data_paths svc" for i path d
  proof (cases i)
    case 0
    with that have "ev = Incoming (GET path) d" by simp
    with failed_request [OF Cons.prems(1-3) that(3), of d] q show ?thesis
      using 0 by simp
  next
    case (Suc j)
    with that ih show ?thesis by auto
  qed
  with eq inv ih show ?case by auto
qed

text \<open>
  C9. For each service, let requests come in while the connection attempt is pending,
  and let the attempt then fail with \<open>e\<close>. The failure writes one console line and
  marks the connection failed, and changes nothing else. Whatever happens afterwards,
  the process has not exited, still listens on its port and has called
  \<^verbatim>\<open>mongoose.connect\<close> once; and every later GET request to a data route of the
  service gets one response, with status 500.
\<close>

theorem connect_failure_tolerated:
  assumes "\<forall>ev \<in> set before. \<exists>req d. ev = Incoming req d"
  shows "let p0 = fst (run svc before (start svc));
             p1 = fst (step svc (ConnectSettled (Rejected e)) p0);
             out = run svc after p1
         in snd (step svc (ConnectSettled (Rejected e)) p0) = [] \<and>
            p1 = p0\<lparr>console := console p0 @ [ConsoleLog ''Error connecting to MongoDB: '' (Some e)],
                    connection := Some (Failed e)\<rparr> \<and>
            \<not> exited (fst out) \<and> listening (fst out) = Some (PORT svc) \<and>
            length (connects (fst out)) = 1 \<and>
            (\<forall>i<length after. \<forall>path d.
               after ! i = Incoming (GET path) d \<and> path \<in> data_paths svc \<longrightarrow>
               map status (snd out ! i) = [500])"
proof -
  define p0 where "p0 = fst (run svc before (start svc))"
  define p1 where "p1 = fst (step svc (ConnectSettled (Rejected e)) p0)"
  define out where "out = run svc after p1"
  have r0: "run svc before (start svc) = (p0, snd (run svc before (start svc)))"
    by (simp add: p0_def)
  have f0: "connection p0 = Some Connecting" "\<not> exited p0" "listening p0 = Some (PORT svc)"
    "connects p0 = [''mongodb://localhost:27017/zolgensma'']"
    using run_incoming [OF assms r0] start_fields [of svc] by simp_all
  have s1: "step svc (ConnectSettled (Rejected e)) p0 =
    (p0\<lparr>console := console p0 @ [ConsoleLog ''Error connecting to MongoDB: '' (Some e)],
       connection := Some (Failed e)\<rparr>, [])"
    using settle_rejected [OF f0(1,2)] .
  then have p1: "p1 = p0\<lparr>console := console p0 @ [ConsoleLog ''Error connecting to MongoDB: '' (Some e)],
       connection := Some (Failed e)\<rparr>"
    by (simp add: p1_def)
  have f1: "connection p1 = Some (Failed e)" "\<not> exited p1" "listening p1 = Some (PORT svc)"
    "connects p1 = [''mongodb://localhost:27017/zolgensma'']"
    using f0 by (simp_all add: p1)
  have r1: "run svc after p1 = (fst out, snd out)" by (simp add: out_def)
  note fin = failed_run [OF f1(1-3) r1]
  from fin f1(4) s1 p1 show ?thesis
    unfolding Let_def p0_def [symmetric] p1_def [symmetric] out_def [symmetric]
    by simp
qed


theorem connect_failure_tolerated_witness:
  "\<not> exited (fst (run ServiceB
      [Incoming (GET ''/fetch-data'') (\<lambda>_. Resolved []),
       Incoming (GET ''/fetch-referal-data'') (\<lambda>_. Resolved [])]
      (fst (step ServiceB (ConnectSettled (Rejected \<lparr>name = ''MongooseError'', message = ''refused''\<rparr>))
         (fst (run ServiceB [Incoming (GET ''/test'') (\<lambda>_. Resolved [])] (start ServiceB))))))) \<and>
   map status (snd (run ServiceB
      [Incoming (GET ''/fetch-data'') (\<lambda>_. Resolved []),
       Incoming (GET ''/fetch-referal-data'') (\<lambda>_. Resolved [])]
      (fst (step ServiceB (ConnectSettled (Rejected \<lparr>name = ''MongooseError'', message = ''refused''\<rparr>))
         (fst (run ServiceB [Incoming (GET ''/test'') (\<lambda>_. Resolved [])] (start ServiceB)))))) ! 1) = [500]"
proof -
  let ?e = "\<lparr>name = ''MongooseError'', message = ''refused''\<rparr>"
  let ?before = "[Incoming (GET ''/test'') (\<lambda>_. Resolved [])]"
  let ?after = "[Incoming (GET ''/fetch-data'') (\<lambda>_. Resolved []),
                 Incoming (GET ''/fetch-referal-data'') (\<lambda>_. Resolved [])]"
  let ?out = "run ServiceB ?after
      (fst (step ServiceB (ConnectSettled (Rejected ?e)) (fst (run ServiceB ?before (start ServiceB)))))"
  have h: "\<forall>ev \<in> set ?before. \<exists>req d. ev = Incoming req d"
    by simp
  note t = connect_failure_tolerated [OF h, of ServiceB ?e ?after, unfolded Let_def]
  from t have alive: "\<not> exited (fst ?out)"
    by blast
  from t have "\<forall>i<length ?after. \<forall>path d.
      ?after ! i = Incoming (GET path) d \<and> path \<in> data_paths ServiceB \<longrightarrow>
      map status (snd ?out ! i) = [500]"
    by blast
  then have "1 < length ?after \<and>
      ?after ! 1 = Incoming (GET ''/fetch-referal-data'') (\<lambda>_. Resolved []) \<and>
      ''/fetch-referal-data'' \<in> data_paths ServiceB \<longrightarrow>
      map status (snd ?out ! 1) = [500]"
    by blast
  then have "map status (snd ?out ! 1) = [500]"
    by (simp del: run.simps step.simps)
  with alive show ?thesis
    by blast
qed

end
